theory Spec2Isabelle
  imports Main "HOL-Library.Word"
begin

section \<open>JavaScript strings\<close>

text \<open>
  A JavaScript string is a sequence of UTF-16 code units; \<open>length\<close> counts code units,
  as \<^verbatim>\<open>String.prototype.length\<close> does. \<open>js\<close> reads an ASCII literal of the source.
\<close>

type_synonym jschar = "16 word"
type_synonym jsstring = "jschar list"

definition js :: "string \<Rightarrow> jsstring" where
  "js s = map of_char s"

text \<open>
  \<^verbatim>\<open>String.prototype.trim\<close> strips the WhiteSpace and LineTerminator code points of
  ECMAScript from both ends: TAB, VT, FF, SP, NBSP, ZWNBSP, the category Zs, and
  LF, CR, LS, PS. All of them are in the basic plane, so each is one code unit.
\<close>

definition is_js_whitespace :: "jschar \<Rightarrow> bool" where
  "is_js_whitespace c \<longleftrightarrow>
     c = 0x0009 \<or> c = 0x000A \<or> c = 0x000B \<or> c = 0x000C \<or> c = 0x000D \<or>
     c = 0x0020 \<or> c = 0x00A0 \<or> c = 0x1680 \<or>
     (0x2000 \<le> c \<and> c \<le> 0x200A) \<or>
     c = 0x2028 \<or> c = 0x2029 \<or> c = 0x202F \<or> c = 0x205F \<or> c = 0x3000 \<or>
     c = 0xFEFF"

definition trim :: "jsstring \<Rightarrow> jsstring" where
  "trim val = rev (dropWhile is_js_whitespace (rev (dropWhile is_js_whitespace val)))"

section \<open>The regular expression of the contact field\<close>

text \<open>
  \<^verbatim>\<open>/^[0-9]{10}$/\<close> has no flags: \<open>^\<close> is the start of the input and \<open>$\<close> its end.
  \<open>match_class_times cls n\<close> is the term \<open>[cls]{n}\<close>: it consumes exactly \<open>n\<close> code units
  of the class and returns the rest of the input, or fails.
\<close>

definition is_0_9 :: "jschar \<Rightarrow> bool" where
  "is_0_9 c \<longleftrightarrow> 0x30 \<le> c \<and> c \<le> 0x39"

fun match_class_times :: "(jschar \<Rightarrow> bool) \<Rightarrow> nat \<Rightarrow> jsstring \<Rightarrow> jsstring option" where
  "match_class_times cls 0 v = Some v"
| "match_class_times cls (Suc n) [] = None"
| "match_class_times cls (Suc n) (c # v) =
     (if cls c then match_class_times cls n v else None)"

definition contact_regex :: "jsstring \<Rightarrow> bool" where
  "contact_regex v \<longleftrightarrow> match_class_times is_0_9 10 v = Some []"

section \<open>Zod schemas\<close>

text \<open>
  A Zod issue carries the path of the value it is about and a message. A path is a list
  of object keys and array indices, as in \<^verbatim>\<open>["skills", 0, "value"]\<close>.
\<close>

datatype seg = Key string | Idx nat

type_synonym path = "seg list"
type_synonym issue = "path \<times> string"

text \<open>
  A string schema \<^verbatim>\<open>z.string().min(..).regex(..).refine(..)\<close> is the chain of its checks
  in declaration order, each a predicate the value has to satisfy and the message of the
  issue raised when it does not. None of the checks of this schema aborts the chain:
  every failing check adds its issue, in order.
\<close>

type_synonym str_check = "(jsstring \<Rightarrow> bool) \<times> string"

definition min_length :: "nat \<Rightarrow> string \<Rightarrow> str_check" where
  "min_length n msg = (\<lambda>val. \<not> length val < n, msg)"

definition refine :: "(jsstring \<Rightarrow> bool) \<Rightarrow> string \<Rightarrow> str_check" where
  "refine p msg = (p, msg)"

definition regex :: "(jsstring \<Rightarrow> bool) \<Rightarrow> string \<Rightarrow> str_check" where
  "regex re msg = (re, msg)"

definition email_check :: "(jsstring \<Rightarrow> bool) \<Rightarrow> string \<Rightarrow> str_check" where
  "email_check email_shape msg = (email_shape, msg)"

definition parse_string :: "str_check list \<Rightarrow> path \<Rightarrow> jsstring \<Rightarrow> issue list" where
  "parse_string checks p val = map (\<lambda>c. (p, snd c)) (filter (\<lambda>c. \<not> fst c val) checks)"

subsection \<open>The schema of the form\<close>

record skill =
  skill_value :: jsstring

record FormData =
  firstName :: jsstring
  lastName :: jsstring
  email :: jsstring
  contact :: jsstring
  role :: jsstring
  skills :: "skill list"
  message :: "jsstring option"

definition schema_firstName :: "str_check list" where
  "schema_firstName =
     [min_length 1 ''First Name is required'',
      refine (\<lambda>val. trim val \<noteq> []) ''First Name cannot be empty spaces'']"

definition schema_lastName :: "str_check list" where
  "schema_lastName =
     [min_length 1 ''Last Name is required'',
      refine (\<lambda>val. trim val \<noteq> []) ''Last Name cannot be empty spaces'']"

text \<open>
  The pattern behind \<^verbatim>\<open>.email()\<close> belongs to the Zod library; the schema takes it as
  the parameter \<open>email_shape\<close>.
\<close>

definition schema_email :: "(jsstring \<Rightarrow> bool) \<Rightarrow> str_check list" where
  "schema_email email_shape =
     [min_length 1 ''Email is required'',
      email_check email_shape ''Invalid email address'']"

definition schema_contact :: "str_check list" where
  "schema_contact =
     [min_length 1 ''Contact number is required'',
      regex contact_regex ''Contact must be 10 digits'']"

definition schema_role :: "str_check list" where
  "schema_role = [min_length 1 ''Role is required'']"

definition schema_skill_value :: "str_check list" where
  "schema_skill_value =
     [min_length 1 ''Skill is required'',
      refine (\<lambda>val. trim val \<noteq> []) ''Skill cannot be empty spaces'']"

definition parse_skill :: "path \<Rightarrow> skill \<Rightarrow> issue list" where
  "parse_skill p sk = parse_string schema_skill_value (p @ [Key ''value'']) (skill_value sk)"

text \<open>
  \<^verbatim>\<open>z.array(item).min(1, msg)\<close>: the length check raises its issue at the path of the
  array, then every element is parsed at the path extended by its index.
\<close>

fun parse_items :: "path \<Rightarrow> nat \<Rightarrow> skill list \<Rightarrow> issue list" where
  "parse_items p i [] = []"
| "parse_items p i (sk # sks) = parse_skill (p @ [Idx i]) sk @ parse_items p (Suc i) sks"

definition parse_skills :: "path \<Rightarrow> skill list \<Rightarrow> issue list" where
  "parse_skills p sks =
     (if length sks < 1 then [(p, ''At least one skill is required'')] else [])
     @ parse_items p 0 sks"

text \<open>\<^verbatim>\<open>z.string().optional()\<close>: an absent value and every string pass.\<close>

definition parse_message :: "path \<Rightarrow> jsstring option \<Rightarrow> issue list" where
  "parse_message p m = (case m of None \<Rightarrow> [] | Some val \<Rightarrow> parse_string [] p val)"

text \<open>The object schema parses its keys in the order of the declaration.\<close>

definition schema_issues :: "(jsstring \<Rightarrow> bool) \<Rightarrow> FormData \<Rightarrow> issue list" where
  "schema_issues email_shape data =
     parse_string schema_firstName [Key ''firstName''] (firstName data)
     @ parse_string schema_lastName [Key ''lastName''] (lastName data)
     @ parse_string (schema_email email_shape) [Key ''email''] (email data)
     @ parse_string schema_contact [Key ''contact''] (contact data)
     @ parse_string schema_role [Key ''role''] (role data)
     @ parse_skills [Key ''skills''] (skills data)
     @ parse_message [Key ''message''] (message data)"

definition safeParse :: "(jsstring \<Rightarrow> bool) \<Rightarrow> FormData \<Rightarrow> issue list + FormData" where
  "safeParse email_shape data =
     (case schema_issues email_shape data of [] \<Rightarrow> Inr data | i # is \<Rightarrow> Inl (i # is))"

section \<open>The resolver\<close>

text \<open>
  \<^verbatim>\<open>zodResolver(schema)\<close> turns the issues into the error object of the form: it walks
  the issues in order and keeps, for each path, the first issue only. The result is kept
  here as the list of its entries in insertion order, keyed by path.
\<close>

type_synonym ValidationResult = "(path \<times> string) list"

fun parseErrorSchema :: "issue list \<Rightarrow> ValidationResult \<Rightarrow> ValidationResult" where
  "parseErrorSchema [] errors = errors"
| "parseErrorSchema ((p, msg) # zodErrors) errors =
     parseErrorSchema zodErrors
       (case map_of errors p of None \<Rightarrow> errors @ [(p, msg)] | Some e \<Rightarrow> errors)"

definition zodResolver :: "(jsstring \<Rightarrow> bool) \<Rightarrow> FormData \<Rightarrow> ValidationResult + FormData" where
  "zodResolver email_shape data =
     (case safeParse email_shape data of
        Inr parsed \<Rightarrow> Inr parsed
      | Inl zodErrors \<Rightarrow> Inl (parseErrorSchema zodErrors []))"

text \<open>The ValidationResult of a candidate record: empty when the record is accepted.\<close>

definition validate :: "(jsstring \<Rightarrow> bool) \<Rightarrow> FormData \<Rightarrow> ValidationResult" where
  "validate email_shape data =
     (case zodResolver email_shape data of Inl errors \<Rightarrow> errors | Inr parsed \<Rightarrow> [])"

definition error_at :: "ValidationResult \<Rightarrow> path \<Rightarrow> string option" where
  "error_at errors p = map_of errors p"

definition errors_under :: "path \<Rightarrow> ValidationResult \<Rightarrow> ValidationResult" where
  "errors_under prefix errors = filter (\<lambda>e. take (length prefix) (fst e) = prefix) errors"

section \<open>The component\<close>

text \<open>
  The state of \<open>App\<close>: the values of the form, the identity keys that \<^verbatim>\<open>useFieldArray\<close>
  keeps beside the skill entries, the snapshot \<open>submittedData\<close>, and the number of identity
  keys generated so far. The keys come from the form library's generator; \<open>gen k\<close> is the
  key returned by its call number \<open>k\<close>.

  The inputs missing from \<^verbatim>\<open>defaultValues\<close> are registered text controls, whose blank
  content reads as the empty string.
\<close>

record 'id app_state =
  form_values :: FormData
  field_ids :: "'id list"
  submittedData :: "FormData option"
  generated :: nat

definition defaultValues :: FormData where
  "defaultValues =
     \<lparr>firstName = [], lastName = [], email = [], contact = [], role = [],
      skills = [\<lparr>skill_value = []\<rparr>], message = Some []\<rparr>"

definition init :: "(nat \<Rightarrow> 'id) \<Rightarrow> 'id app_state" where
  "init gen =
     \<lparr>form_values = defaultValues, field_ids = [gen 0], submittedData = None, generated = 1\<rparr>"

text \<open>
  The rows that \<^verbatim>\<open>fields.map\<close> renders: row \<open>i\<close> has the key \<^verbatim>\<open>field.id\<close> of entry
  \<open>i\<close> and the input registered as \<^verbatim>\<open>skills.i.value\<close>, paired here with its current value.
\<close>

definition fields :: "'id app_state \<Rightarrow> ('id \<times> skill) list" where
  "fields s = zip (field_ids s) (skills (form_values s))"

text \<open>
  \<^verbatim>\<open>reset()\<close> without arguments puts the default values back; the field array then
  takes a new key for each of its entries.
\<close>

definition reset :: "(nat \<Rightarrow> 'id) \<Rightarrow> 'id app_state \<Rightarrow> 'id app_state" where
  "reset gen s =
     s\<lparr>form_values := defaultValues, field_ids := [gen (generated s)],
       generated := Suc (generated s)\<rparr>"

definition onSubmit :: "(nat \<Rightarrow> 'id) \<Rightarrow> FormData \<Rightarrow> 'id app_state \<Rightarrow> 'id app_state" where
  "onSubmit gen data s = reset gen (s\<lparr>submittedData := Some data\<rparr>)"

text \<open>
  \<^verbatim>\<open>handleSubmit(onSubmit)\<close> runs the resolver on the current values. The first
  component of the result is the error object the pass leaves in \<^verbatim>\<open>formState.errors\<close>;
  \<open>onSubmit\<close> is called only when it is empty.
\<close>

definition handleSubmit ::
  "(jsstring \<Rightarrow> bool) \<Rightarrow> (nat \<Rightarrow> 'id) \<Rightarrow> 'id app_state \<Rightarrow> ValidationResult \<times> 'id app_state" where
  "handleSubmit email_shape gen s =
     (case zodResolver email_shape (form_values s) of
        Inl errors \<Rightarrow> (errors, s)
      | Inr data \<Rightarrow> ([], onSubmit gen data s))"

subsection \<open>The skills list\<close>

text \<open>
  \<^verbatim>\<open>append\<close> and \<^verbatim>\<open>remove\<close> of \<^verbatim>\<open>useFieldArray\<close> change the values and the keys
  together: \<open>append\<close> adds the value at the end with a newly generated key, \<open>remove\<close>
  splices one position out of both (and nothing when the index is out of range).
\<close>

definition remove_at :: "nat \<Rightarrow> 'a list \<Rightarrow> 'a list" where
  "remove_at i xs = take i xs @ drop (Suc i) xs"

definition append_field :: "(nat \<Rightarrow> 'id) \<Rightarrow> skill \<Rightarrow> 'id app_state \<Rightarrow> 'id app_state" where
  "append_field gen sk s =
     s\<lparr>form_values := (form_values s)\<lparr>skills := skills (form_values s) @ [sk]\<rparr>,
       field_ids := field_ids s @ [gen (generated s)],
       generated := Suc (generated s)\<rparr>"

definition remove_field :: "nat \<Rightarrow> 'id app_state \<Rightarrow> 'id app_state" where
  "remove_field i s =
     s\<lparr>form_values := (form_values s)\<lparr>skills := remove_at i (skills (form_values s))\<rparr>,
       field_ids := remove_at i (field_ids s)\<rparr>"

text \<open>
  The remove button of row \<open>i\<close> exists for \<open>i < length (fields s)\<close> and is disabled when
  \<^verbatim>\<open>fields.length === 1\<close>: a click on a disabled button calls nothing.
\<close>

definition click_remove :: "nat \<Rightarrow> 'id app_state \<Rightarrow> 'id app_state" where
  "click_remove i s =
     (if i < length (fields s) \<and> length (fields s) \<noteq> 1 then remove_field i s else s)"

definition click_add_skill :: "(nat \<Rightarrow> 'id) \<Rightarrow> 'id app_state \<Rightarrow> 'id app_state" where
  "click_add_skill gen s = append_field gen \<lparr>skill_value = []\<rparr> s"

text \<open>Typing into the input registered as \<^verbatim>\<open>skills.i.value\<close>, which exists for each row.\<close>

definition update_skill :: "nat \<Rightarrow> jsstring \<Rightarrow> 'id app_state \<Rightarrow> 'id app_state" where
  "update_skill i val s =
     (if i < length (fields s)
      then s\<lparr>form_values :=
              (form_values s)\<lparr>skills := (skills (form_values s))[i := \<lparr>skill_value = val\<rparr>]\<rparr>\<rparr>
      else s)"

text \<open>The select control of the role offers these values only.\<close>

definition role_options :: "jsstring list" where
  "role_options = [js '''', js ''student'', js ''developer'', js ''designer'']"

subsection \<open>User actions\<close>

text \<open>
  The actions the rendered form offers, and the state after each. An action on a row that
  is not rendered cannot happen and is modelled as changing nothing; the select control
  yields one of its options.
\<close>

datatype event =
    TypeFirstName jsstring
  | TypeLastName jsstring
  | TypeEmail jsstring
  | TypeContact jsstring
  | SelectRole jsstring
  | TypeSkill nat jsstring
  | TypeMessage jsstring
  | ClickAddSkill
  | ClickRemove nat
  | ClickSubmit

fun step :: "(jsstring \<Rightarrow> bool) \<Rightarrow> (nat \<Rightarrow> 'id) \<Rightarrow> 'id app_state \<Rightarrow> event \<Rightarrow> 'id app_state" where
  "step E gen s (TypeFirstName v) = s\<lparr>form_values := (form_values s)\<lparr>firstName := v\<rparr>\<rparr>"
| "step E gen s (TypeLastName v) = s\<lparr>form_values := (form_values s)\<lparr>lastName := v\<rparr>\<rparr>"
| "step E gen s (TypeEmail v) = s\<lparr>form_values := (form_values s)\<lparr>email := v\<rparr>\<rparr>"
| "step E gen s (TypeContact v) = s\<lparr>form_values := (form_values s)\<lparr>contact := v\<rparr>\<rparr>"
| "step E gen s (SelectRole v) =
     (if v \<in> set role_options then s\<lparr>form_values := (form_values s)\<lparr>role := v\<rparr>\<rparr> else s)"
| "step E gen s (TypeSkill i v) = update_skill i v s"
| "step E gen s (TypeMessage v) = s\<lparr>form_values := (form_values s)\<lparr>message := Some v\<rparr>\<rparr>"
| "step E gen s ClickAddSkill = click_add_skill gen s"
| "step E gen s (ClickRemove i) = click_remove i s"
| "step E gen s ClickSubmit = snd (handleSubmit E gen s)"

definition run :: "(jsstring \<Rightarrow> bool) \<Rightarrow> (nat \<Rightarrow> 'id) \<Rightarrow> 'id app_state \<Rightarrow> event list \<Rightarrow> 'id app_state" where
  "run E gen s es = foldl (step E gen) s es"

section \<open>Notions used to state the properties\<close>

text \<open>The message of the first check of a chain, in declaration order, that the value fails.\<close>

definition first_failure :: "str_check list \<Rightarrow> jsstring \<Rightarrow> string option" where
  "first_failure checks val = map_option snd (find (\<lambda>c. \<not> fst c val) checks)"

text \<open>A ValidationResult holds a non-empty message at a path.\<close>

definition has_message :: "ValidationResult \<Rightarrow> path \<Rightarrow> bool" where
  "has_message errors p = (case error_at errors p of None \<Rightarrow> False | Some msg \<Rightarrow> msg \<noteq> [])"

text \<open>The invariant of the skills list: one identity key per entry, and at least one entry.\<close>

definition list_inv :: "'id app_state \<Rightarrow> bool" where
  "list_inv s \<longleftrightarrow>
     length (field_ids s) = length (skills (form_values s)) \<and> 1 \<le> length (field_ids s)"

subsection \<open>Concrete inputs\<close>

text \<open>
  A record that passes every check, a stand-in for the library's e-mail pattern (an
  address has an \<open>@\<close>) and a generator of identity keys that counts its calls.
\<close>

definition ann_lee :: FormData where
  "ann_lee =
     \<lparr>firstName = js ''Ann'', lastName = js ''Lee'', email = js ''ann@x.com'',
      contact = js ''1234567890'', role = js ''developer'',
      skills = [\<lparr>skill_value = js ''Go''\<rparr>], message = Some (js [])\<rparr>"

definition at_sign_shape :: "jsstring \<Rightarrow> bool" where
  "at_sign_shape v \<longleftrightarrow> of_char CHR ''@'' \<in> set v"

definition counter_ids :: "nat \<Rightarrow> nat" where
  "counter_ids k = k"

section \<open>Strings and the regular expression\<close>

lemma match_class_times_iff:
  "match_class_times cls n v = Some rest \<longleftrightarrow>
     n \<le> length v \<and> (\<forall>c\<in>set (take n v). cls c) \<and> rest = drop n v"
proof (induction cls n v rule: match_class_times.induct)
  case (1 cls v)
  show ?case by auto
next
  case (2 cls n)
  show ?case by simp
next
  case (3 cls n c v)
  then show ?case by auto
qed

lemma is_0_9_iff: "is_0_9 c \<longleftrightarrow> c \<in> set (js ''0123456789'')"
proof
  assume "c \<in> set (js ''0123456789'')"
  then show "is_0_9 c" by (auto simp: js_def is_0_9_def)
next
  assume a: "is_0_9 c"
  then have "48 \<le> unat c" "unat c \<le> 57"
    by (simp_all add: is_0_9_def word_le_nat_alt)
  then have "unat c \<in> {48, 49, 50, 51, 52, 53, 54, 55, 56, 57}" by simp arith
  then have "(of_nat (unat c) :: jschar) \<in> of_nat ` {48, 49, 50, 51, 52, 53, 54, 55, 56, 57}"
    by (rule imageI)
  then have "c \<in> {48, 49, 50, 51, 52, 53, 54, 55, 56, 57}"
    by simp
  then show "c \<in> set (js ''0123456789'')" by (auto simp: js_def)
qed

lemma contact_regex_iff:
  "contact_regex v \<longleftrightarrow> length v = 10 \<and> (\<forall>c\<in>set v. c \<in> set (js ''0123456789''))"
  unfolding contact_regex_def match_class_times_iff is_0_9_iff by auto

lemma dropWhile_rev_empty_iff: "dropWhile P (rev (dropWhile P v)) = [] \<longleftrightarrow> (\<forall>c\<in>set v. P c)"
proof
  assume a: "dropWhile P (rev (dropWhile P v)) = []"
  then have "\<forall>c\<in>set (rev (dropWhile P v)). P c" by simp
  then have "dropWhile P v = []"
    by (metis dropWhile_eq_Nil_conv hd_dropWhile hd_in_set set_rev)
  then show "\<forall>c\<in>set v. P c" by simp
next
  assume "\<forall>c\<in>set v. P c"
  then show "dropWhile P (rev (dropWhile P v)) = []" by (auto dest: set_dropWhileD)
qed

lemma trim_empty_iff: "trim v = [] \<longleftrightarrow> (\<forall>c\<in>set v. is_js_whitespace c)"
  unfolding trim_def rev_is_Nil_conv by (rule dropWhile_rev_empty_iff)

lemma map_of_parseErrorSchema:
  "map_of (parseErrorSchema zs errs) p =
     (case map_of errs p of Some m \<Rightarrow> Some m | None \<Rightarrow> map_of zs p)"
proof (induction zs errs rule: parseErrorSchema.induct)
  case (1 errors)
  show ?case by (simp split: option.splits)
next
  case (2 q msg zodErrors errors)
  then show ?case by (auto split: option.splits simp: map_add_def)
qed

lemma parseErrorSchema_Nil_iff: "parseErrorSchema zs errs = [] \<longleftrightarrow> zs = [] \<and> errs = []"
  by (induction zs errs rule: parseErrorSchema.induct) (auto split: option.splits)

lemma validate_Nil_iff: "validate E r = [] \<longleftrightarrow> schema_issues E r = []"
  by (auto simp: validate_def zodResolver_def safeParse_def parseErrorSchema_Nil_iff
      split: list.splits sum.splits)

lemma zodResolver_eq:
  "zodResolver E r = (if schema_issues E r = [] then Inr r else Inl (validate E r))"
  by (auto simp: validate_def zodResolver_def safeParse_def split: list.splits)

lemma error_at_validate: "error_at (validate E r) p = map_of (schema_issues E r) p"
  by (auto simp: error_at_def validate_def zodResolver_def safeParse_def map_of_parseErrorSchema
      split: list.splits sum.splits)


lemma map_of_parse_string:
  "map_of (parse_string cs p v) q = (if q = p then first_failure cs v else None)"
  by (induction cs) (auto simp: parse_string_def first_failure_def)

lemma parse_string_Nil_iff: "parse_string cs p v = [] \<longleftrightarrow> first_failure cs v = None"
  by (induction cs) (auto simp: parse_string_def first_failure_def)

lemma keys_parse_string: "e \<in> set (parse_string cs p v) \<Longrightarrow> fst e = p"
  by (auto simp: parse_string_def)

lemma keys_parse_items:
  "e \<in> set (parse_items p k sks) \<Longrightarrow> \<exists>i<length sks. fst e = p @ [Idx (k + i), Key ''value'']"
proof (induction sks arbitrary: k)
  case Nil
  then show ?case by simp
next
  case (Cons sk sks)
  from Cons.prems consider
    (head) "e \<in> set (parse_skill (p @ [Idx k]) sk)" | (tail) "e \<in> set (parse_items p (Suc k) sks)"
    by auto
  then show ?case
  proof cases
    case head
    then have "fst e = p @ [Idx (k + 0), Key ''value'']"
      by (auto simp: parse_skill_def dest: keys_parse_string)
    then show ?thesis by (intro exI [of _ 0]) simp
  next
    case tail
    from Cons.IH [OF tail] obtain i where "i < length sks" "fst e = p @ [Idx (Suc k + i), Key ''value'']"
      by blast
    then show ?thesis by (intro exI [of _ "Suc i"]) simp
  qed
qed

lemma map_of_None_keys: "(\<And>e. e \<in> set xs \<Longrightarrow> fst e \<noteq> q) \<Longrightarrow> map_of xs q = None"
  by (force simp: map_of_eq_None_iff)

lemma map_of_parse_items:
  "i < length sks \<Longrightarrow>
   map_of (parse_items p k sks) (p @ [Idx (k + i), Key ''value''])
     = first_failure schema_skill_value (skill_value (sks ! i))"
proof (induction sks arbitrary: k i)
  case Nil
  then show ?case by simp
next
  case (Cons sk sks)
  show ?case
  proof (cases i)
    case 0
    have "map_of (parse_items p (Suc k) sks) (p @ [Idx k, Key ''value'']) = None"
      by (rule map_of_None_keys) (auto dest!: keys_parse_items)
    with 0 show ?thesis
      by (simp add: map_add_def parse_skill_def map_of_parse_string split: option.splits)
  next
    case (Suc j)
    with Cons.prems have j: "j < length sks" by simp
    have "map_of (parse_skill (p @ [Idx k]) sk) (p @ [Idx (Suc (k + j)), Key ''value'']) = None"
      by (simp add: parse_skill_def map_of_parse_string)
    with Cons.IH [OF j, of "Suc k"] Suc show ?thesis
      by (simp add: map_add_def)
  qed
qed

lemma keys_parse_skills: "e \<in> set (parse_skills p sks) \<Longrightarrow> take (length p) (fst e) = p"
  by (auto simp: parse_skills_def dest!: keys_parse_items split: if_splits)

lemma map_of_parse_skills_other:
  "take (length p) q \<noteq> p \<Longrightarrow> map_of (parse_skills p sks) q = None"
  by (rule map_of_None_keys) (auto dest: keys_parse_skills)

lemma map_of_parse_skills_root:
  "map_of (parse_skills p sks) p = (if sks = [] then Some ''At least one skill is required'' else None)"
proof (cases sks)
  case Nil
  then show ?thesis by (simp add: parse_skills_def)
next
  case (Cons sk sks')
  have "map_of (parse_items p 0 sks) p = None"
    by (rule map_of_None_keys) (auto dest!: keys_parse_items)
  with Cons show ?thesis by (simp add: parse_skills_def)
qed

lemma map_of_parse_skills_item:
  "i < length sks \<Longrightarrow>
   map_of (parse_skills p sks) (p @ [Idx i, Key ''value''])
     = first_failure schema_skill_value (skill_value (sks ! i))"
  using map_of_parse_items [of i sks p 0] by (auto simp: parse_skills_def map_add_def)

lemma parse_message_Nil: "parse_message p m = []"
  by (simp add: parse_message_def parse_string_def split: option.splits)

lemma first_failure_firstName:
  "first_failure schema_firstName v =
     (if v = [] then Some ''First Name is required''
      else if trim v = [] then Some ''First Name cannot be empty spaces'' else None)"
  by (simp add: first_failure_def schema_firstName_def min_length_def refine_def)

lemma first_failure_lastName:
  "first_failure schema_lastName v =
     (if v = [] then Some ''Last Name is required''
      else if trim v = [] then Some ''Last Name cannot be empty spaces'' else None)"
  by (simp add: first_failure_def schema_lastName_def min_length_def refine_def)

lemma first_failure_email:
  "first_failure (schema_email E) v =
     (if v = [] then Some ''Email is required''
      else if \<not> E v then Some ''Invalid email address'' else None)"
  by (simp add: first_failure_def schema_email_def min_length_def email_check_def)

lemma first_failure_contact:
  "first_failure schema_contact v =
     (if v = [] then Some ''Contact number is required''
      else if \<not> contact_regex v then Some ''Contact must be 10 digits'' else None)"
  by (simp add: first_failure_def schema_contact_def min_length_def regex_def)

lemma first_failure_role:
  "first_failure schema_role v = (if v = [] then Some ''Role is required'' else None)"
  by (simp add: first_failure_def schema_role_def min_length_def)

lemma first_failure_skill_value:
  "first_failure schema_skill_value v =
     (if v = [] then Some ''Skill is required''
      else if trim v = [] then Some ''Skill cannot be empty spaces'' else None)"
  by (simp add: first_failure_def schema_skill_value_def min_length_def refine_def)

lemma error_at_firstName:
  "error_at (validate E r) [Key ''firstName''] = first_failure schema_firstName (firstName r)"
  by (simp add: error_at_validate schema_issues_def map_add_def map_of_parse_string
      map_of_parse_skills_other parse_message_Nil split: option.splits)

lemma error_at_lastName:
  "error_at (validate E r) [Key ''lastName''] = first_failure schema_lastName (lastName r)"
  by (simp add: error_at_validate schema_issues_def map_add_def map_of_parse_string
      map_of_parse_skills_other parse_message_Nil split: option.splits)

lemma error_at_email:
  "error_at (validate E r) [Key ''email''] = first_failure (schema_email E) (email r)"
  by (simp add: error_at_validate schema_issues_def map_add_def map_of_parse_string
      map_of_parse_skills_other parse_message_Nil split: option.splits)

lemma error_at_contact:
  "error_at (validate E r) [Key ''contact''] = first_failure schema_contact (contact r)"
  by (simp add: error_at_validate schema_issues_def map_add_def map_of_parse_string
      map_of_parse_skills_other parse_message_Nil split: option.splits)

lemma error_at_role:
  "error_at (validate E r) [Key ''role''] = first_failure schema_role (role r)"
  by (simp add: error_at_validate schema_issues_def map_add_def map_of_parse_string
      map_of_parse_skills_other parse_message_Nil split: option.splits)

lemma error_at_skills:
  "error_at (validate E r) [Key ''skills''] =
     (if skills r = [] then Some ''At least one skill is required'' else None)"
  by (simp add: error_at_validate schema_issues_def map_add_def map_of_parse_string
      map_of_parse_skills_root parse_message_Nil split: option.splits)

lemma error_at_skill_item:
  "i < length (skills r) \<Longrightarrow>
   error_at (validate E r) [Key ''skills'', Idx i, Key ''value'']
     = first_failure schema_skill_value (skill_value (skills r ! i))"
  using map_of_parse_skills_item [of i "skills r" "[Key ''skills'']"]
  by (simp add: error_at_validate schema_issues_def map_add_def map_of_parse_string
      parse_message_Nil split: option.splits)

section \<open>The skills list and the submission\<close>

lemma handleSubmit_eq:
  "handleSubmit E gen s =
     (if validate E (form_values s) = [] then ([], onSubmit gen (form_values s) s)
      else (validate E (form_values s), s))"
  by (simp add: handleSubmit_def zodResolver_eq validate_Nil_iff)

lemma length_remove_at: "i < length xs \<Longrightarrow> length (remove_at i xs) = length xs - 1"
  by (simp add: remove_at_def)

lemma zip_remove_at:
  "length xs = length ys \<Longrightarrow> zip (remove_at i xs) (remove_at i ys) = remove_at i (zip xs ys)"
  by (simp add: remove_at_def take_zip drop_zip)

lemma length_fields: "list_inv s \<Longrightarrow> length (fields s) = length (skills (form_values s))"
  by (simp add: fields_def list_inv_def)

lemma list_inv_init: "list_inv (init gen)"
  by (simp add: list_inv_def init_def defaultValues_def)

lemma list_inv_reset: "list_inv (reset gen s)"
  by (simp add: list_inv_def reset_def defaultValues_def)

lemma list_inv_append: "list_inv s \<Longrightarrow> list_inv (append_field gen sk s)"
  by (simp add: list_inv_def append_field_def)

lemma list_inv_remove:
  assumes "list_inv s"
  shows "list_inv (click_remove i s)"
proof (cases "i < length (fields s) \<and> length (fields s) \<noteq> 1")
  case False
  with assms show ?thesis by (auto simp: click_remove_def)
next
  case True
  with assms have "i < length (field_ids s)" "i < length (skills (form_values s))"
    "2 \<le> length (field_ids s)" "length (field_ids s) = length (skills (form_values s))"
    by (auto simp: list_inv_def fields_def)
  with True show ?thesis
    by (simp add: click_remove_def remove_field_def list_inv_def length_remove_at)
qed

lemma list_inv_update: "list_inv s \<Longrightarrow> list_inv (update_skill i v s)"
  by (simp add: update_skill_def list_inv_def)

lemma list_inv_step: "list_inv s \<Longrightarrow> list_inv (step E gen s e)"
  by (cases e)
    (simp_all add: list_inv_append list_inv_remove list_inv_update click_add_skill_def
      handleSubmit_eq onSubmit_def list_inv_reset, simp_all add: list_inv_def)

lemma list_inv_run: "list_inv s \<Longrightarrow> list_inv (run E gen s es)"
  unfolding run_def by (induction es arbitrary: s) (simp_all add: list_inv_step)

lemma js_simps:
  "js [] = []" "js (c # cs) = of_char c # js cs"
  by (simp_all add: js_def)

section \<open>The claims\<close>

subsection \<open>C1: the role field\<close>

text \<open>
  C1, as stated, fails: the role \<open>manager\<close> is none of \<open>student\<close>, \<open>developer\<close>,
  \<open>designer\<close>, and the schema raises no issue for it, since the only check of the role is
  \<^verbatim>\<open>min(1)\<close>.
\<close>

theorem role_manager_accepted:
  "error_at (validate at_sign_shape (ann_lee\<lparr>role := js ''manager''\<rparr>)) [Key ''role''] = None
   \<and> js ''manager'' \<notin> {js ''student'', js ''developer'', js ''designer''}"
  by (simp add: error_at_role first_failure_role js_def)

text \<open>
  C1, amended: for every candidate record the role is valid if and only if it is not
  empty; the empty role has the error \<open>Role is required\<close>; and for a role that is one of
  the values the select control offers (the empty one, \<open>student\<close>, \<open>developer\<close>,
  \<open>designer\<close>) it is valid if and only if it is one of \<open>student\<close>, \<open>developer\<close>,
  \<open>designer\<close>.
\<close>

theorem role_valid_iff_nonempty:
  "(error_at (validate E r) [Key ''role''] = None \<longleftrightarrow> role r \<noteq> []) \<and>
   (role r = [] \<longrightarrow> error_at (validate E r) [Key ''role''] = Some ''Role is required'') \<and>
   (role r \<in> set role_options \<longrightarrow>
      (error_at (validate E r) [Key ''role''] = None
         \<longleftrightarrow> role r \<in> {js ''student'', js ''developer'', js ''designer''}))"
  by (auto simp: error_at_role first_failure_role role_options_def js_def)

theorem role_valid_iff_nonempty_witness:
  "role ann_lee \<in> set role_options
   \<and> error_at (validate at_sign_shape ann_lee) [Key ''role''] = None
   \<and> role defaultValues = []
   \<and> error_at (validate at_sign_shape defaultValues) [Key ''role''] = Some ''Role is required''"
  using role_valid_iff_nonempty [of at_sign_shape ann_lee]
    role_valid_iff_nonempty [of at_sign_shape defaultValues]
  by (simp add: ann_lee_def defaultValues_def role_options_def js_def)

subsection \<open>C2: the contact field\<close>

text \<open>
  C2: for every candidate record the contact has no error if and only if it consists of
  exactly 10 decimal digits; \<open>1234567890\<close> is valid, while \<open>123456789\<close>,
  \<open>12345678901\<close> and \<open>123-456-7890\<close> each have a contact error.
\<close>

theorem contact_valid_iff_ten_digits:
  "(error_at (validate E r) [Key ''contact''] = None
      \<longleftrightarrow> length (contact r) = 10 \<and> (\<forall>c\<in>set (contact r). c \<in> set (js ''0123456789''))) \<and>
   (contact r = js ''1234567890'' \<longrightarrow> error_at (validate E r) [Key ''contact''] = None) \<and>
   (contact r = js ''123456789''
      \<longrightarrow> error_at (validate E r) [Key ''contact''] = Some ''Contact must be 10 digits'') \<and>
   (contact r = js ''12345678901''
      \<longrightarrow> error_at (validate E r) [Key ''contact''] = Some ''Contact must be 10 digits'') \<and>
   (contact r = js ''123-456-7890''
      \<longrightarrow> error_at (validate E r) [Key ''contact''] = Some ''Contact must be 10 digits'')"
proof -
  have general: "error_at (validate E r) [Key ''contact''] = None
      \<longleftrightarrow> length (contact r) = 10 \<and> (\<forall>c\<in>set (contact r). c \<in> set (js ''0123456789''))"
    by (auto simp: error_at_contact first_failure_contact contact_regex_iff)
  have ok: "contact_regex (js ''1234567890'')"
    by (simp add: contact_regex_iff js_def)
  have short: "\<not> contact_regex (js ''123456789'')"
    by (simp add: contact_regex_iff js_def)
  have long: "\<not> contact_regex (js ''12345678901'')"
    by (simp add: contact_regex_iff js_def)
  have dashes: "\<not> contact_regex (js ''123-456-7890'')"
    by (simp add: contact_regex_iff js_def)
  from ok have e1: "contact r = js ''1234567890'' \<longrightarrow> error_at (validate E r) [Key ''contact''] = None"
    by (simp add: error_at_contact first_failure_contact js_def)
  from short have e2: "contact r = js ''123456789''
      \<longrightarrow> error_at (validate E r) [Key ''contact''] = Some ''Contact must be 10 digits''"
    by (simp add: error_at_contact first_failure_contact js_def)
  from long have e3: "contact r = js ''12345678901''
      \<longrightarrow> error_at (validate E r) [Key ''contact''] = Some ''Contact must be 10 digits''"
    by (simp add: error_at_contact first_failure_contact js_def)
  from dashes have e4: "contact r = js ''123-456-7890''
      \<longrightarrow> error_at (validate E r) [Key ''contact''] = Some ''Contact must be 10 digits''"
    by (simp add: error_at_contact first_failure_contact js_def)
  from general e1 e2 e3 e4 show ?thesis by blast
qed

theorem contact_valid_iff_ten_digits_witness:
  "contact ann_lee = js ''1234567890''
   \<and> error_at (validate at_sign_shape ann_lee) [Key ''contact''] = None
   \<and> contact (ann_lee\<lparr>contact := js ''123-456-7890''\<rparr>) = js ''123-456-7890''
   \<and> error_at (validate at_sign_shape (ann_lee\<lparr>contact := js ''123-456-7890''\<rparr>)) [Key ''contact'']
       = Some ''Contact must be 10 digits''"
  using contact_valid_iff_ten_digits [of at_sign_shape ann_lee]
    contact_valid_iff_ten_digits [of at_sign_shape "ann_lee\<lparr>contact := js ''123-456-7890''\<rparr>"]
  by (simp add: ann_lee_def)

subsection \<open>C3, C4 and C10: blank values, the skills list, the reported message\<close>

lemma keys_parseErrorSchema:
  "fst ` set (parseErrorSchema zs errs) = fst ` set errs \<union> fst ` set zs"
proof (induction zs errs rule: parseErrorSchema.induct)
  case (1 errors)
  show ?case by simp
next
  case (2 p msg zodErrors errors)
  show ?case
  proof (cases "map_of errors p")
    case None
    with 2 show ?thesis by auto
  next
    case (Some e)
    then have "p \<in> fst ` set errors" by (metis map_of_eq_None_iff option.distinct(1))
    with 2 Some show ?thesis by auto
  qed
qed

lemma validate_eq: "validate E r = parseErrorSchema (schema_issues E r) []"
  by (simp add: validate_def zodResolver_def safeParse_def split: list.splits)

lemma errors_under_Nil_iff:
  "errors_under prefix errs = [] \<longleftrightarrow> (\<forall>q\<in>fst ` set errs. take (length prefix) q \<noteq> prefix)"
  by (auto simp: errors_under_def filter_empty_conv)

lemma parse_items_Nil_iff:
  "parse_items p k sks = []
     \<longleftrightarrow> (\<forall>sk\<in>set sks. first_failure schema_skill_value (skill_value sk) = None)"
  by (induction sks arbitrary: k) (auto simp: parse_skill_def parse_string_Nil_iff)

lemma parse_skills_Nil_iff:
  "parse_skills p sks = []
     \<longleftrightarrow> sks \<noteq> [] \<and> (\<forall>sk\<in>set sks. first_failure schema_skill_value (skill_value sk) = None)"
  by (auto simp: parse_skills_def parse_items_Nil_iff)

lemma errors_under_skills:
  "errors_under [Key ''skills''] (validate E r) = [] \<longleftrightarrow> parse_skills [Key ''skills''] (skills r) = []"
proof -
  have "(\<forall>e\<in>set (parse_skills [Key ''skills''] (skills r)). take 1 (fst e) \<noteq> [Key ''skills''])
      \<longleftrightarrow> parse_skills [Key ''skills''] (skills r) = []"
    using keys_parse_skills [of _ "[Key ''skills'']" "skills r"]
    by (cases "parse_skills [Key ''skills''] (skills r)") auto
  then show ?thesis
    by (auto simp: errors_under_Nil_iff validate_eq keys_parseErrorSchema schema_issues_def
        parse_message_Nil dest!: keys_parse_string)
qed

lemma first_failure_skill_None_iff:
  "first_failure schema_skill_value v = None
     \<longleftrightarrow> v \<noteq> [] \<and> \<not> (\<forall>c\<in>set v. is_js_whitespace c)"
  by (auto simp: first_failure_skill_value trim_empty_iff)

text \<open>
  C3, as stated, fails in its second part: a first name of three spaces and the empty
  first name are both rejected, but not identically. The ValidationResults differ: the
  first has the message of the \<^verbatim>\<open>refine\<close> check, the second that of \<^verbatim>\<open>min(1)\<close>.
\<close>

theorem blank_not_treated_as_empty:
  "list_all is_js_whitespace (js ''   '')
   \<and> error_at (validate at_sign_shape (ann_lee\<lparr>firstName := js ''   ''\<rparr>)) [Key ''firstName'']
       = Some ''First Name cannot be empty spaces''
   \<and> error_at (validate at_sign_shape (ann_lee\<lparr>firstName := []\<rparr>)) [Key ''firstName'']
       = Some ''First Name is required''
   \<and> validate at_sign_shape (ann_lee\<lparr>firstName := js ''   ''\<rparr>)
       \<noteq> validate at_sign_shape (ann_lee\<lparr>firstName := []\<rparr>)"
proof -
  have ws: "list_all is_js_whitespace (js ''   '')"
    by (simp add: js_def is_js_whitespace_def)
  then have t: "trim (js ''   '') = []"
    by (simp add: trim_empty_iff list_all_iff)
  have ne: "js ''   '' \<noteq> []"
    by (simp add: js_def)
  from t ne have spaces:
    "error_at (validate at_sign_shape (ann_lee\<lparr>firstName := js ''   ''\<rparr>)) [Key ''firstName'']
       = Some ''First Name cannot be empty spaces''"
    by (simp add: error_at_firstName first_failure_firstName)
  have empty:
    "error_at (validate at_sign_shape (ann_lee\<lparr>firstName := []\<rparr>)) [Key ''firstName'']
       = Some ''First Name is required''"
    by (simp add: error_at_firstName first_failure_firstName)
  have differ: "validate at_sign_shape (ann_lee\<lparr>firstName := js ''   ''\<rparr>)
       \<noteq> validate at_sign_shape (ann_lee\<lparr>firstName := []\<rparr>)"
  proof
    assume "validate at_sign_shape (ann_lee\<lparr>firstName := js ''   ''\<rparr>)
       = validate at_sign_shape (ann_lee\<lparr>firstName := []\<rparr>)"
    then have "error_at (validate at_sign_shape (ann_lee\<lparr>firstName := js ''   ''\<rparr>))
          [Key ''firstName'']
        = error_at (validate at_sign_shape (ann_lee\<lparr>firstName := []\<rparr>)) [Key ''firstName'']"
      by simp
    with spaces empty show False by simp
  qed
  from ws spaces empty differ show ?thesis by blast
qed

text \<open>
  C3, amended: for every candidate record the first name (and likewise the last name,
  and each skill entry) has an error if and only if it is empty or trims to the empty
  string. A value of whitespace only is rejected, as the empty value is, for the first
  name, the last name and each skill entry, but with a message of its own: the empty
  value is reported as required, the non-empty whitespace-only value as empty spaces.
\<close>

theorem blank_values_rejected:
  "(error_at (validate E r) [Key ''firstName''] \<noteq> None
      \<longleftrightarrow> firstName r = [] \<or> trim (firstName r) = []) \<and>
   (error_at (validate E r) [Key ''lastName''] \<noteq> None
      \<longleftrightarrow> lastName r = [] \<or> trim (lastName r) = []) \<and>
   (i < length (skills r) \<longrightarrow>
      (error_at (validate E r) [Key ''skills'', Idx i, Key ''value''] \<noteq> None
         \<longleftrightarrow> skill_value (skills r ! i) = [] \<or> trim (skill_value (skills r ! i)) = [])) \<and>
   (v \<noteq> [] \<and> (\<forall>c\<in>set v. is_js_whitespace c) \<longrightarrow>
      error_at (validate E (r\<lparr>firstName := v\<rparr>)) [Key ''firstName'']
        = Some ''First Name cannot be empty spaces'' \<and>
      error_at (validate E (r\<lparr>firstName := []\<rparr>)) [Key ''firstName'']
        = Some ''First Name is required'' \<and>
      error_at (validate E (r\<lparr>lastName := v\<rparr>)) [Key ''lastName'']
        = Some ''Last Name cannot be empty spaces'' \<and>
      error_at (validate E (r\<lparr>lastName := []\<rparr>)) [Key ''lastName'']
        = Some ''Last Name is required'' \<and>
      (i < length (skills r) \<longrightarrow>
         error_at (validate E (r\<lparr>skills := (skills r)[i := \<lparr>skill_value = v\<rparr>]\<rparr>))
           [Key ''skills'', Idx i, Key ''value''] = Some ''Skill cannot be empty spaces'' \<and>
         error_at (validate E (r\<lparr>skills := (skills r)[i := \<lparr>skill_value = []\<rparr>]\<rparr>))
           [Key ''skills'', Idx i, Key ''value''] = Some ''Skill is required''))"
proof -
  have names:
    "error_at (validate E r) [Key ''firstName''] \<noteq> None
       \<longleftrightarrow> firstName r = [] \<or> trim (firstName r) = []"
    "error_at (validate E r) [Key ''lastName''] \<noteq> None
       \<longleftrightarrow> lastName r = [] \<or> trim (lastName r) = []"
    by (simp_all add: error_at_firstName first_failure_firstName
        error_at_lastName first_failure_lastName)
  have entry_iff: "error_at (validate E r) [Key ''skills'', Idx i, Key ''value''] \<noteq> None
         \<longleftrightarrow> skill_value (skills r ! i) = [] \<or> trim (skill_value (skills r ! i)) = []"
    if "i < length (skills r)"
    using that by (simp add: error_at_skill_item first_failure_skill_value)
  have blank: "error_at (validate E (r\<lparr>firstName := v\<rparr>)) [Key ''firstName'']
        = Some ''First Name cannot be empty spaces'' \<and>
      error_at (validate E (r\<lparr>firstName := []\<rparr>)) [Key ''firstName'']
        = Some ''First Name is required'' \<and>
      error_at (validate E (r\<lparr>lastName := v\<rparr>)) [Key ''lastName'']
        = Some ''Last Name cannot be empty spaces'' \<and>
      error_at (validate E (r\<lparr>lastName := []\<rparr>)) [Key ''lastName'']
        = Some ''Last Name is required''"
    if "v \<noteq> []" "\<forall>c\<in>set v. is_js_whitespace c"
    using that
    by (simp add: error_at_firstName first_failure_firstName
        error_at_lastName first_failure_lastName trim_empty_iff)
  have entry: "error_at (validate E (r\<lparr>skills := (skills r)[i := \<lparr>skill_value = v\<rparr>]\<rparr>))
           [Key ''skills'', Idx i, Key ''value''] = Some ''Skill cannot be empty spaces'' \<and>
         error_at (validate E (r\<lparr>skills := (skills r)[i := \<lparr>skill_value = []\<rparr>]\<rparr>))
           [Key ''skills'', Idx i, Key ''value''] = Some ''Skill is required''"
    if "v \<noteq> []" "\<forall>c\<in>set v. is_js_whitespace c" "i < length (skills r)"
    using that
    by (simp add: error_at_skill_item first_failure_skill_value trim_empty_iff)
  from names entry_iff blank entry show ?thesis by blast
qed

theorem blank_values_rejected_witness:
  "js ''   '' \<noteq> [] \<and> list_all is_js_whitespace (js ''   '') \<and> 0 < length (skills ann_lee) \<and>
   error_at (validate at_sign_shape (ann_lee\<lparr>lastName := js ''   ''\<rparr>)) [Key ''lastName'']
     = Some ''Last Name cannot be empty spaces'' \<and>
   error_at (validate at_sign_shape (ann_lee\<lparr>lastName := []\<rparr>)) [Key ''lastName'']
     = Some ''Last Name is required'' \<and>
   error_at (validate at_sign_shape (ann_lee\<lparr>skills := (skills ann_lee)[0 := \<lparr>skill_value = js ''   ''\<rparr>]\<rparr>))
     [Key ''skills'', Idx 0, Key ''value''] = Some ''Skill cannot be empty spaces'' \<and>
   error_at (validate at_sign_shape (ann_lee\<lparr>skills := (skills ann_lee)[0 := \<lparr>skill_value = []\<rparr>]\<rparr>))
     [Key ''skills'', Idx 0, Key ''value''] = Some ''Skill is required'' \<and>
   error_at (validate at_sign_shape ann_lee) [Key ''firstName''] = None \<and>
   trim (firstName ann_lee) \<noteq> []"
proof -
  have ne: "js ''   '' \<noteq> []"
    by (simp add: js_def)
  have ws: "list_all is_js_whitespace (js ''   '')"
    by (simp add: js_def is_js_whitespace_def)
  then have ws': "\<forall>c\<in>set (js ''   ''). is_js_whitespace c"
    by (simp add: list_all_iff)
  have len: "0 < length (skills ann_lee)"
    by (simp add: ann_lee_def)
  have ann: "firstName ann_lee \<noteq> []" "trim (firstName ann_lee) \<noteq> []"
    by (simp_all add: ann_lee_def trim_empty_iff js_def is_js_whitespace_def)
  from ne ws ws' len ann blank_values_rejected [of at_sign_shape ann_lee 0 "js ''   ''"]
  show ?thesis by blast
qed

text \<open>
  C4: for every candidate record there is no error under \<open>skills\<close> if and only if the
  list has at least one entry and every entry is neither empty nor whitespace only; a
  failing entry has its error at the path of its own index; and submitting a form whose
  only skill is three spaces gives the error \<open>Skill cannot be empty spaces\<close> at
  \<open>skills.0.value\<close> and leaves the state as it was, so nothing is submitted.
\<close>

theorem skills_valid_iff:
  "(errors_under [Key ''skills''] (validate E r) = [] \<longleftrightarrow>
      skills r \<noteq> [] \<and>
      (\<forall>sk\<in>set (skills r).
         skill_value sk \<noteq> [] \<and> \<not> (\<forall>c\<in>set (skill_value sk). is_js_whitespace c))) \<and>
   (i < length (skills r) \<longrightarrow>
      (error_at (validate E r) [Key ''skills'', Idx i, Key ''value''] \<noteq> None
         \<longleftrightarrow> skill_value (skills r ! i) = []
             \<or> (\<forall>c\<in>set (skill_value (skills r ! i)). is_js_whitespace c))) \<and>
   (skills (form_values s) = [\<lparr>skill_value = js ''   ''\<rparr>] \<longrightarrow>
      error_at (fst (handleSubmit E gen s)) [Key ''skills'', Idx 0, Key ''value'']
        = Some ''Skill cannot be empty spaces'' \<and>
      snd (handleSubmit E gen s) = s)"
proof -
  have whole: "errors_under [Key ''skills''] (validate E r) = [] \<longleftrightarrow>
      skills r \<noteq> [] \<and>
      (\<forall>sk\<in>set (skills r).
         skill_value sk \<noteq> [] \<and> \<not> (\<forall>c\<in>set (skill_value sk). is_js_whitespace c))"
    by (simp add: errors_under_skills parse_skills_Nil_iff first_failure_skill_None_iff)
  have entry: "error_at (validate E r) [Key ''skills'', Idx i, Key ''value''] \<noteq> None
         \<longleftrightarrow> skill_value (skills r ! i) = []
             \<or> (\<forall>c\<in>set (skill_value (skills r ! i)). is_js_whitespace c)"
    if "i < length (skills r)"
    using that first_failure_skill_None_iff [of "skill_value (skills r ! i)"]
    by (auto simp: error_at_skill_item)
  have example: "error_at (fst (handleSubmit E gen s)) [Key ''skills'', Idx 0, Key ''value'']
        = Some ''Skill cannot be empty spaces'' \<and> snd (handleSubmit E gen s) = s"
    if sk: "skills (form_values s) = [\<lparr>skill_value = js ''   ''\<rparr>]"
  proof -
    have t: "trim (js ''   '') = []"
      by (simp add: trim_empty_iff js_def is_js_whitespace_def)
    have e: "error_at (validate E (form_values s)) [Key ''skills'', Idx 0, Key ''value'']
        = Some ''Skill cannot be empty spaces''"
      using sk t error_at_skill_item [of 0 "form_values s" E]
      by (simp add: first_failure_skill_value) (simp add: js_def)
    then have "validate E (form_values s) \<noteq> []"
      by (auto simp: error_at_def)
    with e show ?thesis by (simp add: handleSubmit_eq)
  qed
  from whole entry example show ?thesis by blast
qed

theorem skills_valid_iff_witness:
  "skills (form_values ((init counter_ids)\<lparr>form_values := ann_lee\<lparr>skills := [\<lparr>skill_value = js ''   ''\<rparr>]\<rparr>\<rparr>))
     = [\<lparr>skill_value = js ''   ''\<rparr>] \<and>
   error_at (fst (handleSubmit at_sign_shape counter_ids
       ((init counter_ids)\<lparr>form_values := ann_lee\<lparr>skills := [\<lparr>skill_value = js ''   ''\<rparr>]\<rparr>\<rparr>)))
     [Key ''skills'', Idx 0, Key ''value''] = Some ''Skill cannot be empty spaces'' \<and>
   submittedData (snd (handleSubmit at_sign_shape counter_ids
       ((init counter_ids)\<lparr>form_values := ann_lee\<lparr>skills := [\<lparr>skill_value = js ''   ''\<rparr>]\<rparr>\<rparr>))) = None \<and>
   (0::nat) < length (skills ann_lee) \<and>
   error_at (validate at_sign_shape ann_lee) [Key ''skills'', Idx 0, Key ''value''] = None \<and>
   errors_under [Key ''skills''] (validate at_sign_shape ann_lee) = []"
  using skills_valid_iff [of at_sign_shape ann_lee 0
      "(init counter_ids)\<lparr>form_values := ann_lee\<lparr>skills := [\<lparr>skill_value = js ''   ''\<rparr>]\<rparr>\<rparr>" counter_ids]
  by (simp add: ann_lee_def init_def js_def is_js_whitespace_def)

text \<open>
  C10: for every field with a chain of checks the reported message is that of the first
  failing check in declaration order. An empty first name gives
  \<open>First Name is required\<close>, a first name of whitespace only gives
  \<open>First Name cannot be empty spaces\<close>, an empty contact gives
  \<open>Contact number is required\<close> and an empty email gives \<open>Email is required\<close>.
\<close>

theorem first_failing_constraint_reported:
  "error_at (validate E r) [Key ''firstName''] = first_failure schema_firstName (firstName r) \<and>
   error_at (validate E r) [Key ''lastName''] = first_failure schema_lastName (lastName r) \<and>
   error_at (validate E r) [Key ''email''] = first_failure (schema_email E) (email r) \<and>
   error_at (validate E r) [Key ''contact''] = first_failure schema_contact (contact r) \<and>
   (i < length (skills r) \<longrightarrow>
      error_at (validate E r) [Key ''skills'', Idx i, Key ''value'']
        = first_failure schema_skill_value (skill_value (skills r ! i))) \<and>
   (firstName r = [] \<longrightarrow>
      error_at (validate E r) [Key ''firstName''] = Some ''First Name is required'') \<and>
   (firstName r \<noteq> [] \<and> (\<forall>c\<in>set (firstName r). is_js_whitespace c) \<longrightarrow>
      error_at (validate E r) [Key ''firstName''] = Some ''First Name cannot be empty spaces'') \<and>
   (contact r = [] \<longrightarrow>
      error_at (validate E r) [Key ''contact''] = Some ''Contact number is required'') \<and>
   (email r = [] \<longrightarrow> error_at (validate E r) [Key ''email''] = Some ''Email is required'')"
  by (simp add: error_at_firstName error_at_lastName error_at_email error_at_contact
      error_at_skill_item first_failure_firstName first_failure_contact first_failure_email
      trim_empty_iff)

theorem first_failing_constraint_reported_witness:
  "firstName defaultValues = [] \<and> contact defaultValues = [] \<and> email defaultValues = [] \<and>
   error_at (validate at_sign_shape defaultValues) [Key ''firstName''] = Some ''First Name is required'' \<and>
   error_at (validate at_sign_shape defaultValues) [Key ''contact''] = Some ''Contact number is required'' \<and>
   error_at (validate at_sign_shape defaultValues) [Key ''email''] = Some ''Email is required'' \<and>
   firstName (ann_lee\<lparr>firstName := js ''  ''\<rparr>) \<noteq> [] \<and>
   list_all is_js_whitespace (firstName (ann_lee\<lparr>firstName := js ''  ''\<rparr>)) \<and>
   error_at (validate at_sign_shape (ann_lee\<lparr>firstName := js ''  ''\<rparr>)) [Key ''firstName'']
     = Some ''First Name cannot be empty spaces''"
proof -
  have blank: "firstName defaultValues = []" "contact defaultValues = []" "email defaultValues = []"
    by (simp_all add: defaultValues_def)
  have spaces: "firstName (ann_lee\<lparr>firstName := js ''  ''\<rparr>) \<noteq> []"
    "\<forall>c\<in>set (firstName (ann_lee\<lparr>firstName := js ''  ''\<rparr>)). is_js_whitespace c"
    by (simp_all add: js_def is_js_whitespace_def)
  from spaces have "list_all is_js_whitespace (firstName (ann_lee\<lparr>firstName := js ''  ''\<rparr>))"
    by (simp add: list_all_iff)
  with blank spaces
    first_failing_constraint_reported [of at_sign_shape defaultValues 0]
    first_failing_constraint_reported [of at_sign_shape "ann_lee\<lparr>firstName := js ''  ''\<rparr>" 0]
  show ?thesis by blast
qed

subsection \<open>C5 and C6: submission\<close>

lemma validate_ann_lee: "E (js ''ann@x.com'') \<Longrightarrow> validate E ann_lee = []"
proof -
  assume e: "E (js ''ann@x.com'')"
  have names: "trim (js ''Ann'') \<noteq> []" "trim (js ''Lee'') \<noteq> []" "trim (js ''Go'') \<noteq> []"
    by (simp_all add: trim_empty_iff js_def is_js_whitespace_def)
  have digits: "contact_regex (js ''1234567890'')"
    by (simp add: contact_regex_iff js_def)
  have nonempty: "js ''Ann'' \<noteq> []" "js ''Lee'' \<noteq> []" "js ''Go'' \<noteq> []"
    "js ''ann@x.com'' \<noteq> []" "js ''1234567890'' \<noteq> []" "js ''developer'' \<noteq> []"
    by (simp_all add: js_def)
  from e names digits nonempty show ?thesis
    by (simp add: validate_Nil_iff schema_issues_def ann_lee_def parse_string_Nil_iff
        parse_skills_Nil_iff parse_message_Nil first_failure_firstName first_failure_lastName
        first_failure_email first_failure_contact first_failure_role first_failure_skill_value)
qed

lemma has_message_iff: "has_message errs p \<longleftrightarrow> (\<exists>m. error_at errs p = Some m \<and> m \<noteq> [])"
  by (auto simp: has_message_def split: option.splits)

lemma error_at_nonempty: "error_at errs p = Some m \<Longrightarrow> errs \<noteq> []"
  by (auto simp: error_at_def)

text \<open>
  C5: when every field of the current values validates, submitting stores exactly these
  values in \<open>submittedData\<close> and resets the form to its initial values, with one empty
  skill entry; in particular so for the record of Ann Lee with e-mail \<open>ann@x.com\<close>,
  contact \<open>1234567890\<close>, role \<open>developer\<close>, the skill \<open>Go\<close> and an empty message,
  given that the library's e-mail pattern accepts \<open>ann@x.com\<close>.
\<close>

theorem valid_submission_accepted:
  "(validate E (form_values s) = [] \<longrightarrow>
      fst (handleSubmit E gen s) = [] \<and>
      submittedData (snd (handleSubmit E gen s)) = Some (form_values s) \<and>
      form_values (snd (handleSubmit E gen s)) = form_values (init gen) \<and>
      map snd (fields (snd (handleSubmit E gen s))) = [\<lparr>skill_value = []\<rparr>]) \<and>
   (E (js ''ann@x.com'') \<and> form_values s = ann_lee \<longrightarrow>
      fst (handleSubmit E gen s) = [] \<and>
      submittedData (snd (handleSubmit E gen s)) = Some ann_lee \<and>
      form_values (snd (handleSubmit E gen s)) = form_values (init gen) \<and>
      map snd (fields (snd (handleSubmit E gen s))) = [\<lparr>skill_value = []\<rparr>])"
proof -
  have accepted: "fst (handleSubmit E gen s) = [] \<and>
      submittedData (snd (handleSubmit E gen s)) = Some (form_values s) \<and>
      form_values (snd (handleSubmit E gen s)) = form_values (init gen) \<and>
      map snd (fields (snd (handleSubmit E gen s))) = [\<lparr>skill_value = []\<rparr>]"
    if "validate E (form_values s) = []"
    using that
    by (simp add: handleSubmit_eq onSubmit_def reset_def init_def fields_def defaultValues_def)
  have "validate E (form_values s) = []" if "E (js ''ann@x.com'')" "form_values s = ann_lee"
    using that by (simp add: validate_ann_lee)
  with accepted show ?thesis by metis
qed

theorem valid_submission_accepted_witness:
  "at_sign_shape (js ''ann@x.com'') \<and>
   form_values ((init counter_ids)\<lparr>form_values := ann_lee\<rparr>) = ann_lee \<and>
   handleSubmit at_sign_shape counter_ids ((init counter_ids)\<lparr>form_values := ann_lee\<rparr>)
     = ([], \<lparr>form_values = defaultValues, field_ids = [1], submittedData = Some ann_lee,
             generated = 2\<rparr>)"
proof -
  have e: "at_sign_shape (js ''ann@x.com'')"
    by (simp add: at_sign_shape_def js_def)
  have v: "form_values ((init counter_ids)\<lparr>form_values := ann_lee\<rparr>) = ann_lee"
    by simp
  from e v valid_submission_accepted
    [of at_sign_shape "(init counter_ids)\<lparr>form_values := ann_lee\<rparr>" counter_ids]
  have "validate at_sign_shape ann_lee = []"
    by (auto simp: handleSubmit_eq split: if_splits)
  with e v show ?thesis
    by (simp add: handleSubmit_eq onSubmit_def reset_def init_def counter_ids_def)
qed

text \<open>
  C6: when a required field is blank or a field fails its constraint, the
  ValidationResult has a non-empty message at the path of that field, and submitting
  changes nothing: \<open>onSubmit\<close> is not called, \<open>submittedData\<close> and the values of the
  form are as before, and the ValidationResult is what the pass returns.
\<close>

theorem invalid_submission_rejected:
  assumes "r = form_values s"
    and "p = [Key ''firstName'']
           \<and> (firstName r = [] \<or> (\<forall>c\<in>set (firstName r). is_js_whitespace c))
       \<or> p = [Key ''lastName'']
           \<and> (lastName r = [] \<or> (\<forall>c\<in>set (lastName r). is_js_whitespace c))
       \<or> p = [Key ''email''] \<and> (email r = [] \<or> \<not> E (email r))
       \<or> p = [Key ''contact'']
           \<and> \<not> (length (contact r) = 10 \<and> (\<forall>c\<in>set (contact r). c \<in> set (js ''0123456789'')))
       \<or> p = [Key ''role''] \<and> role r = []
       \<or> p = [Key ''skills''] \<and> skills r = []
       \<or> (\<exists>i<length (skills r). p = [Key ''skills'', Idx i, Key ''value'']
             \<and> (skill_value (skills r ! i) = []
                 \<or> (\<forall>c\<in>set (skill_value (skills r ! i)). is_js_whitespace c)))"
  shows "has_message (validate E r) p
     \<and> handleSubmit E gen s = (validate E r, s)
     \<and> submittedData (snd (handleSubmit E gen s)) = submittedData s
     \<and> form_values (snd (handleSubmit E gen s)) = form_values s"
proof -
  have msg: "has_message (validate E r) p"
    using assms(2)
    by (auto simp: has_message_iff error_at_firstName first_failure_firstName
        error_at_lastName first_failure_lastName error_at_email first_failure_email
        error_at_contact first_failure_contact error_at_role first_failure_role
        error_at_skills error_at_skill_item first_failure_skill_value
        trim_empty_iff contact_regex_iff)
  then have "validate E r \<noteq> []"
    by (auto simp: has_message_iff dest: error_at_nonempty)
  with msg assms(1) show ?thesis by (simp add: handleSubmit_eq)
qed

theorem invalid_submission_rejected_witness:
  "has_message (validate at_sign_shape defaultValues) [Key ''firstName'']
   \<and> handleSubmit at_sign_shape counter_ids (init counter_ids)
       = (validate at_sign_shape defaultValues, init counter_ids)
   \<and> submittedData (snd (handleSubmit at_sign_shape counter_ids (init counter_ids))) = None"
proof -
  have r: "defaultValues = form_values (init counter_ids)"
    by (simp add: init_def)
  have f: "firstName defaultValues = []"
    by (simp add: defaultValues_def)
  from invalid_submission_rejected
    [of defaultValues "init counter_ids" "[Key ''firstName'']" at_sign_shape counter_ids, OF r] f
  show ?thesis by (simp add: init_def)
qed

subsection \<open>C7: the skills list\<close>

lemma fields_remove:
  assumes "list_inv s" "i < length (fields s)" "length (fields s) \<noteq> 1"
  shows "fields (click_remove i s) = take i (fields s) @ drop (Suc i) (fields s)"
proof -
  from assms(1) have "length (field_ids s) = length (skills (form_values s))"
    by (simp add: list_inv_def)
  then have "zip (remove_at i (field_ids s)) (remove_at i (skills (form_values s)))
      = remove_at i (fields s)"
    by (simp add: zip_remove_at fields_def)
  with assms(2,3) show ?thesis
    by (simp add: click_remove_def remove_field_def fields_def remove_at_def)
qed

text \<open>
  C7: in every state reached from the initial one by any sequence of user actions
  (typing, adding and removing skills, submitting) the skills list has at least one
  entry and one rendered row per entry; a click on a remove button while exactly one
  entry remains changes nothing, since the button is disabled; and on a longer list the
  remove button of row \<open>i\<close> removes exactly the entry at \<open>i\<close>.
\<close>

theorem skills_list_never_empty:
  assumes "s = run E gen (init gen) es"
  shows "1 \<le> length (skills (form_values s))
     \<and> length (fields s) = length (skills (form_values s))
     \<and> (length (fields s) = 1 \<longrightarrow> click_remove i s = s)
     \<and> (1 < length (fields s) \<and> i < length (fields s) \<longrightarrow>
          fields (click_remove i s) = take i (fields s) @ drop (Suc i) (fields s)
          \<and> skills (form_values (click_remove i s))
              = take i (skills (form_values s)) @ drop (Suc i) (skills (form_values s))
          \<and> length (fields (click_remove i s)) = length (fields s) - 1)"
proof -
  from assms have inv: "list_inv s"
    by (simp add: list_inv_run list_inv_init)
  then have len: "1 \<le> length (skills (form_values s))"
    "length (fields s) = length (skills (form_values s))"
    by (simp_all add: list_inv_def fields_def)
  have blocked: "click_remove i s = s" if "length (fields s) = 1"
    using that by (simp add: click_remove_def)
  have removed: "fields (click_remove i s) = take i (fields s) @ drop (Suc i) (fields s)
      \<and> skills (form_values (click_remove i s))
          = take i (skills (form_values s)) @ drop (Suc i) (skills (form_values s))
      \<and> length (fields (click_remove i s)) = length (fields s) - 1"
    if "1 < length (fields s)" "i < length (fields s)"
  proof -
    from that have f: "fields (click_remove i s) = take i (fields s) @ drop (Suc i) (fields s)"
      by (intro fields_remove [OF inv]) simp_all
    from that have "skills (form_values (click_remove i s))
        = take i (skills (form_values s)) @ drop (Suc i) (skills (form_values s))"
      by (simp add: click_remove_def remove_field_def remove_at_def)
    moreover from f that have "length (fields (click_remove i s)) = length (fields s) - 1"
      by simp
    ultimately show ?thesis using f by simp
  qed
  from len blocked removed show ?thesis by blast
qed

theorem skills_list_never_empty_witness:
  "fields (run at_sign_shape counter_ids (init counter_ids) [ClickAddSkill, TypeSkill 1 (js ''Go'')])
     = [(0, \<lparr>skill_value = []\<rparr>), (1, \<lparr>skill_value = js ''Go''\<rparr>)]
   \<and> fields (click_remove 0
        (run at_sign_shape counter_ids (init counter_ids) [ClickAddSkill, TypeSkill 1 (js ''Go'')]))
     = [(1, \<lparr>skill_value = js ''Go''\<rparr>)]
   \<and> length (fields (run at_sign_shape counter_ids (init counter_ids) [ClickRemove 0])) = 1
   \<and> click_remove 0 (run at_sign_shape counter_ids (init counter_ids) [ClickRemove 0])
     = run at_sign_shape counter_ids (init counter_ids) [ClickRemove 0]"
proof -
  have two: "fields (run at_sign_shape counter_ids (init counter_ids)
        [ClickAddSkill, TypeSkill 1 (js ''Go'')])
      = [(0, \<lparr>skill_value = []\<rparr>), (1, \<lparr>skill_value = js ''Go''\<rparr>)]"
    by (simp add: run_def click_add_skill_def append_field_def update_skill_def fields_def
        init_def defaultValues_def counter_ids_def)
  have one: "length (fields (run at_sign_shape counter_ids (init counter_ids) [ClickRemove 0])) = 1"
    by (simp add: run_def click_remove_def fields_def init_def defaultValues_def)
  from two one
    skills_list_never_empty [OF refl, of at_sign_shape counter_ids
      "[ClickAddSkill, TypeSkill 1 (js ''Go'')]" 0]
    skills_list_never_empty [OF refl, of at_sign_shape counter_ids "[ClickRemove 0]" 0]
  show ?thesis by simp
qed

end
